theory Spec2Isabelle
  imports Complex_Main
begin

section \<open>Errors\<close>

text \<open>
  Every way in which an operation can fail.  \<open>ValueError\<close> and \<open>ZeroDivisionError\<close>
  are the Python exceptions that \<open>lerp\<close> of \<^verbatim>\<open>resources/catmull.ipynb\<close> can raise on
  numbers; the other four are the error kinds named in the specification.
\<close>

datatype error =
    ValueError
  | ZeroDivisionError
  | OutOfRangeError
  | DegenerateTrackError
  | UnorderedInputError
  | InvalidTransitionError

text \<open>Sequencing two fallible computations: the first exception raised propagates.\<close>

fun and_then :: "error + 'a \<Rightarrow> ('a \<Rightarrow> error + 'b) \<Rightarrow> error + 'b" where
  "and_then (Inl e) f = Inl e"
| "and_then (Inr x) f = f x"

section \<open>The notebook: \<open>lerp\<close> and the nested construction\<close>

text \<open>
  \<^verbatim>\<open>
  def lerp(xs, ts, t):
      x_begin, x_end = xs
      t_begin, t_end = ts
      return (x_begin * (t_end - t) + x_end * (t - t_begin)) / (t_end - t_begin)
  \<close>
  Numbers are modelled as exact reals.  Unpacking a list that does not have exactly two
  elements raises \<open>ValueError\<close>; dividing a Python number by zero raises
  \<open>ZeroDivisionError\<close>.
\<close>

fun lerp :: "real list \<Rightarrow> real list \<Rightarrow> real \<Rightarrow> error + real" where
  "lerp [x_begin, x_end] [t_begin, t_end] t =
     (if t_end - t_begin = 0 then Inl ZeroDivisionError
      else Inr ((x_begin * (t_end - t) + x_end * (t - t_begin)) / (t_end - t_begin)))"
| "lerp xs ts t = Inl ValueError"

text \<open>
  \<^verbatim>\<open>
  A1 = lerp([p0, p1], [t0, t1], t)
  A2 = lerp([p1, p2], [t1, t2], t)
  A3 = lerp([p2, p3], [t2, t3], t)
  B1 = lerp([A1, A2], [t0, t2], t)
  B2 = lerp([A2, A3], [t1, t3], t)
  C = lerp([B1, B2], [t1, t2], t)
  \<close>
  The six assignments run in this order; the symbols of the notebook are the arguments.
\<close>

definition C :: "real \<Rightarrow> real \<Rightarrow> real \<Rightarrow> real \<Rightarrow> real \<Rightarrow> real \<Rightarrow> real \<Rightarrow> real \<Rightarrow> real \<Rightarrow> error + real" where
  "C p0 p1 p2 p3 t0 t1 t2 t3 t =
     and_then (lerp [p0, p1] [t0, t1] t) (\<lambda>A1.
     and_then (lerp [p1, p2] [t1, t2] t) (\<lambda>A2.
     and_then (lerp [p2, p3] [t2, t3] t) (\<lambda>A3.
     and_then (lerp [A1, A2] [t0, t2] t) (\<lambda>B1.
     and_then (lerp [A2, A3] [t1, t3] t) (\<lambda>B2.
     lerp [B1, B2] [t1, t2] t)))))"

text \<open>
  The output recorded for \<^verbatim>\<open>pycode(C)\<close>, operator for operator (Python's \<open>*\<close> and \<open>/\<close>
  associate to the left, as here).
\<close>

definition C_pycode :: "real \<Rightarrow> real \<Rightarrow> real \<Rightarrow> real \<Rightarrow> real \<Rightarrow> real \<Rightarrow> real \<Rightarrow> real \<Rightarrow> real \<Rightarrow> real" where
  "C_pycode p0 p1 p2 p3 t0 t1 t2 t3 t =
     ((- t + t2) * ((- t + t2) * (p0 * (- t + t1) + p1 * (t - t0)) / (- t0 + t1)
                    + (t - t0) * (p1 * (- t + t2) + p2 * (t - t1)) / (- t1 + t2)) / (- t0 + t2)
      + (t - t1) * ((- t + t3) * (p1 * (- t + t2) + p2 * (t - t1)) / (- t1 + t2)
                    + (t - t1) * (p2 * (- t + t3) + p3 * (t - t2)) / (- t2 + t3)) / (- t1 + t3))
     / (- t1 + t2)"

text \<open>
  The output recorded for \<^verbatim>\<open>pycode(C.subs(deltas))\<close>; the symbols \<open>delta0 .. delta3\<close>
  are arguments.
\<close>

definition C_subs_pycode :: "real \<Rightarrow> real \<Rightarrow> real \<Rightarrow> real \<Rightarrow> real \<Rightarrow> real \<Rightarrow> real \<Rightarrow> real \<Rightarrow> real \<Rightarrow> real \<Rightarrow> real \<Rightarrow> real \<Rightarrow> real" where
  "C_subs_pycode p0 p1 p2 p3 t0 t1 t2 t3 delta0 delta1 delta2 delta3 =
     (delta1 * (delta1 * (delta2 * p3 - delta3 * p2) / (- t2 + t3)
                - delta3 * (delta1 * p2 - delta2 * p1) / (- t1 + t2)) / (- t1 + t3)
      - delta2 * (delta0 * (delta1 * p2 - delta2 * p1) / (- t1 + t2)
                  - delta2 * (delta0 * p1 - delta1 * p0) / (- t0 + t1)) / (- t0 + t2))
     / (- t1 + t2)"

text \<open>
  The output recorded for \<^verbatim>\<open>pycode(C.diff(t).subs(deltas).simplify())\<close>; it was produced
  when the delta symbols were still printed \<open>Delta0 .. Delta3\<close>.
\<close>

definition C_diff_pycode :: "real \<Rightarrow> real \<Rightarrow> real \<Rightarrow> real \<Rightarrow> real \<Rightarrow> real \<Rightarrow> real \<Rightarrow> real \<Rightarrow> real \<Rightarrow> real \<Rightarrow> real \<Rightarrow> real \<Rightarrow> real" where
  "C_diff_pycode p0 p1 p2 p3 t0 t1 t2 t3 Delta0 Delta1 Delta2 Delta3 =
     ((t0 - t1) * (t0 - t2)
        * (- Delta1 * (t1 - t2) * (Delta2 * p3 - Delta3 * p2)
           + Delta1 * ((t1 - t2) * (Delta1 * (p2 - p3) - Delta2 * p3 + Delta3 * p2)
                       + (t2 - t3) * (Delta1 * p2 - Delta2 * p1 - Delta3 * (p1 - p2)))
           + Delta3 * (t2 - t3) * (Delta1 * p2 - Delta2 * p1))
      + (t1 - t3) * (t2 - t3)
        * (Delta0 * (t0 - t1) * (Delta1 * p2 - Delta2 * p1)
           - Delta2 * (t1 - t2) * (Delta0 * p1 - Delta1 * p0)
           - Delta2 * ((t0 - t1) * (Delta0 * (p1 - p2) - Delta1 * p2 + Delta2 * p1)
                       + (t1 - t2) * (Delta0 * p1 - Delta1 * p0 - Delta2 * (p0 - p1)))))
     / ((t0 - t1) * (t0 - t2) * (t1 - t2) ^ 2 * (t1 - t3) * (t2 - t3))"

text \<open>
  The value of one \<open>lerp\<close> stage once its three differences are known:
  \<open>nb\<close> is \<open>t_end - t\<close>, \<open>na\<close> is \<open>t - t_begin\<close> and \<open>d\<close> is \<open>t_end - t_begin\<close>.
  \<open>stage_diff\<close> is its derivative in \<open>t\<close> when \<open>x\<close> and \<open>y\<close> change at the rates
  \<open>x'\<close> and \<open>y'\<close>.  They serve to state the intermediate results of the proofs.
\<close>

definition stage :: "real \<Rightarrow> real \<Rightarrow> real \<Rightarrow> real \<Rightarrow> real \<Rightarrow> real" where
  "stage x y nb na d = (x * nb + y * na) / d"

definition stage_diff :: "real \<Rightarrow> real \<Rightarrow> real \<Rightarrow> real \<Rightarrow> real \<Rightarrow> real \<Rightarrow> real \<Rightarrow> real" where
  "stage_diff x x' y y' nb na d = (x' * nb - x + (y' * na + y)) / d"

definition C_stages :: "real \<Rightarrow> real \<Rightarrow> real \<Rightarrow> real \<Rightarrow> real \<Rightarrow> real \<Rightarrow> real \<Rightarrow> real \<Rightarrow> real \<Rightarrow> real" where
  "C_stages p0 p1 p2 p3 t0 t1 t2 t3 t =
     stage (stage (stage p0 p1 (t1 - t) (t - t0) (t1 - t0)) (stage p1 p2 (t2 - t) (t - t1) (t2 - t1))
              (t2 - t) (t - t0) (t2 - t0))
           (stage (stage p1 p2 (t2 - t) (t - t1) (t2 - t1)) (stage p2 p3 (t3 - t) (t - t2) (t3 - t2))
              (t3 - t) (t - t1) (t3 - t1))
           (t2 - t) (t - t1) (t2 - t1)"

text \<open>
  The derivative of the six stages by the sum, product and quotient rules, in the
  differences \<open>D\<^sub>i = t - t\<^sub>i\<close> and \<open>a\<^sub>i\<^sub>j = t\<^sub>i - t\<^sub>j\<close>.
\<close>

definition C_stages_diff :: "real \<Rightarrow> real \<Rightarrow> real \<Rightarrow> real \<Rightarrow> real \<Rightarrow> real \<Rightarrow> real \<Rightarrow> real \<Rightarrow> real \<Rightarrow> real \<Rightarrow> real \<Rightarrow> real \<Rightarrow> real \<Rightarrow> real" where
  "C_stages_diff p0 p1 p2 p3 D0 D1 D2 D3 a01 a02 a12 a13 a23 =
     stage_diff
       (stage (stage p0 p1 (- D1) D0 (- a01)) (stage p1 p2 (- D2) D1 (- a12)) (- D2) D0 (- a02))
       (stage_diff (stage p0 p1 (- D1) D0 (- a01)) (stage_diff p0 0 p1 0 (- D1) D0 (- a01))
                   (stage p1 p2 (- D2) D1 (- a12)) (stage_diff p1 0 p2 0 (- D2) D1 (- a12))
                   (- D2) D0 (- a02))
       (stage (stage p1 p2 (- D2) D1 (- a12)) (stage p2 p3 (- D3) D2 (- a23)) (- D3) D1 (- a13))
       (stage_diff (stage p1 p2 (- D2) D1 (- a12)) (stage_diff p1 0 p2 0 (- D2) D1 (- a12))
                   (stage p2 p3 (- D3) D2 (- a23)) (stage_diff p2 0 p3 0 (- D3) D2 (- a23))
                   (- D3) D1 (- a13))
       (- D2) D1 (- a12)"

section \<open>The Spline Interpolator of the specification\<close>

text \<open>
  Modelled from the spec: the GeoPoint record of section 3, which no source file declares.
  An absent elevation is the spec's \<open>0\<close>.  The derived heading is not a field here: it
  is the bearing of the tangent, which needs the arc tangent.
\<close>

record GeoPoint =
  timestamp :: real
  lat :: real
  lon :: real
  elevation :: real

text \<open>
  Modelled from the spec: the choice of the four-point window of section 4.1, which is
  not among the source files.  For a track of four or more points it is the first run of
  four consecutive points whose third point is not before \<open>t\<close>, or the last four
  points; for \<open>t\<close> in the interior the two inner points of the window enclose \<open>t\<close>.
\<close>

fun window :: "GeoPoint list \<Rightarrow> real \<Rightarrow> GeoPoint list" where
  "window (p0 # p1 # p2 # p3 # p4 # rest) t =
     (if t \<le> timestamp p2 then [p0, p1, p2, p3] else window (p1 # p2 # p3 # p4 # rest) t)"
| "window track t = track"

text \<open>
  Modelled from the spec: the interpolation in a four-point window of section 4.1, which
  is not among the source files.  Equal consecutive timestamps fail with
  \<open>DegenerateTrackError\<close>; otherwise the nested construction \<open>C\<close> of the notebook is
  applied to latitude, longitude and elevation, each with the points' own timestamps.
\<close>

fun spline :: "GeoPoint list \<Rightarrow> real \<Rightarrow> error + GeoPoint" where
  "spline [p0, p1, p2, p3] t =
     (if timestamp p0 = timestamp p1 \<or> timestamp p1 = timestamp p2 \<or> timestamp p2 = timestamp p3
      then Inl DegenerateTrackError
      else
        and_then (C (lat p0) (lat p1) (lat p2) (lat p3)
                    (timestamp p0) (timestamp p1) (timestamp p2) (timestamp p3) t) (\<lambda>la.
        and_then (C (lon p0) (lon p1) (lon p2) (lon p3)
                    (timestamp p0) (timestamp p1) (timestamp p2) (timestamp p3) t) (\<lambda>lo.
        and_then (C (elevation p0) (elevation p1) (elevation p2) (elevation p3)
                    (timestamp p0) (timestamp p1) (timestamp p2) (timestamp p3) t) (\<lambda>el.
        Inr \<lparr>timestamp = t, lat = la, lon = lo, elevation = el\<rparr>))))"
| "spline track t = Inl OutOfRangeError"

text \<open>
  Modelled from the spec: the linear fallback of section 4.1 for a track of exactly two
  points, which is not among the source files: \<open>lerp\<close> between the two points on each
  axis, with the same refusal of equal timestamps.
\<close>

fun linear :: "GeoPoint list \<Rightarrow> real \<Rightarrow> error + GeoPoint" where
  "linear [p0, p1] t =
     (if timestamp p0 = timestamp p1 then Inl DegenerateTrackError
      else
        and_then (lerp [lat p0, lat p1] [timestamp p0, timestamp p1] t) (\<lambda>la.
        and_then (lerp [lon p0, lon p1] [timestamp p0, timestamp p1] t) (\<lambda>lo.
        and_then (lerp [elevation p0, elevation p1] [timestamp p0, timestamp p1] t) (\<lambda>el.
        Inr \<lparr>timestamp = t, lat = la, lon = lo, elevation = el\<rparr>))))"
| "linear track t = Inl OutOfRangeError"

text \<open>
  Modelled from the spec: \<open>interpolate\<close> of section 4.1, which is not among the source
  files.  A track of exactly two points is interpolated linearly between its two points
  and refuses a \<open>t\<close> outside them (no extrapolation beyond known fixes).  A track of four
  or more points is interpolated on \<open>[track[1].timestamp, track[len-2].timestamp]\<close> and
  refuses a \<open>t\<close> outside that interior with \<open>OutOfRangeError\<close>.  The spec gives no
  interior to a track of three points or of fewer than two: there every \<open>t\<close> is refused.
\<close>

definition interpolate :: "GeoPoint list \<Rightarrow> real \<Rightarrow> error + GeoPoint" where
  "interpolate track t =
     (if length track = 2 then
        (if t < timestamp (track ! 0) \<or> timestamp (track ! 1) < t then Inl OutOfRangeError
         else linear track t)
      else if length track < 4 then Inl OutOfRangeError
      else if t < timestamp (track ! 1) \<or> timestamp (track ! (length track - 2)) < t
        then Inl OutOfRangeError
      else spline (window track t) t)"

section \<open>The Sequencer of the specification\<close>

text \<open>
  Modelled from the spec: the ImageRecord of section 3, which no source file declares.
\<close>

record ImageRecord =
  path :: string
  capturedAt :: real
  knownPosition :: "GeoPoint option"
  contentFingerprint :: string

text \<open>
  Modelled from the spec: the Sequence of section 3, which no source file declares: its
  members in order and the mark \<open>positionless\<close> of section 4.2.  Its identifier is its
  place in the result.
\<close>

record Sequence =
  members :: "ImageRecord list"
  positionless :: bool

text \<open>
  Modelled from the spec: step 1 of \<open>segment\<close> (section 4.2), which is not among the
  source files: the batch is strictly ordered by \<open>capturedAt\<close>.
\<close>

fun strictly_ordered :: "ImageRecord list \<Rightarrow> bool" where
  "strictly_ordered (a # b # rs) = (capturedAt a < capturedAt b \<and> strictly_ordered (b # rs))"
| "strictly_ordered rs = True"

text \<open>
  Modelled from the spec: the boundary test of step 2 of \<open>segment\<close> (section 4.2), which
  is not among the source files.  For two records with known positions there is a
  boundary when the elapsed time exceeds \<open>maxTimeGap\<close> or the distance exceeds
  \<open>maxDistanceGap\<close>; by step 3 a record that lacks \<open>knownPosition\<close> decides no
  boundary.  The great-circle distance is the parameter \<open>distance\<close>.
\<close>

fun gap :: "(GeoPoint \<Rightarrow> GeoPoint \<Rightarrow> real) \<Rightarrow> real \<Rightarrow> real \<Rightarrow> ImageRecord \<Rightarrow> ImageRecord \<Rightarrow> bool" where
  "gap distance maxTimeGap maxDistanceGap a b =
     (case knownPosition a of
        None \<Rightarrow> False
      | Some pa \<Rightarrow>
          (case knownPosition b of
             None \<Rightarrow> False
           | Some pb \<Rightarrow>
               maxTimeGap < capturedAt b - capturedAt a \<or> maxDistanceGap < distance pa pb))"

text \<open>
  Modelled from the spec: the walk over consecutive pairs of step 2 of \<open>segment\<close>
  (section 4.2), which is not among the source files.  \<open>cur\<close> is the open sequence and
  \<open>prev\<close> its last record; at a boundary the open sequence is closed and a new one
  starts at the second record of the pair.
\<close>

fun walk :: "(ImageRecord \<Rightarrow> ImageRecord \<Rightarrow> bool) \<Rightarrow> ImageRecord list \<Rightarrow> ImageRecord \<Rightarrow> ImageRecord list
             \<Rightarrow> ImageRecord list list" where
  "walk boundary cur prev [] = [cur]"
| "walk boundary cur prev (r # rs) =
     (if boundary prev r then cur # walk boundary [r] r rs
      else walk boundary (cur @ [r]) r rs)"

text \<open>
  Modelled from the spec: a record lacking \<open>knownPosition\<close> (section 4.2, step 3).
\<close>

fun no_position :: "ImageRecord \<Rightarrow> bool" where
  "no_position r = (knownPosition r = None)"

text \<open>
  Modelled from the spec: \<open>segment\<close> of section 4.2, which is not among the source files;
  this is its grouping of the batch into sequences (steps 1 to 3).  A batch that is not
  strictly ordered fails with \<open>UnorderedInputError\<close>.  The run of records without
  position at the very start of the batch, and the one at its very end, is a sequence of
  its own marked \<open>positionless\<close>; the records between them, from the first to the last
  known position, are walked.  The fields that interpolation then fills in (position,
  heading) do not change the grouping and are left as they come in.
\<close>

definition segment :: "(GeoPoint \<Rightarrow> GeoPoint \<Rightarrow> real) \<Rightarrow> ImageRecord list \<Rightarrow> real \<Rightarrow> real
                       \<Rightarrow> error + Sequence list" where
  "segment distance records maxTimeGap maxDistanceGap =
     (if strictly_ordered records then
        (let leading = takeWhile no_position records;
             rest = dropWhile no_position records;
             trailing = rev (takeWhile no_position (rev rest));
             middle = rev (dropWhile no_position (rev rest))
         in Inr ((if leading = [] then [] else [\<lparr>members = leading, positionless = True\<rparr>])
                 @ (case middle of
                      [] \<Rightarrow> []
                    | r # rs \<Rightarrow>
                        map (\<lambda>s. \<lparr>members = s, positionless = False\<rparr>)
                            (walk (gap distance maxTimeGap maxDistanceGap) [r] r rs))
                 @ (if trailing = [] then [] else [\<lparr>members = trailing, positionless = True\<rparr>])))
      else Inl UnorderedInputError)"

section \<open>The stages of the nested construction\<close>

lemma lerp_stage:
  "a \<noteq> b \<Longrightarrow> lerp [x, y] [a, b] t = Inr (stage x y (b - t) (t - a) (b - a))"
  by (simp add: stage_def)

lemma C_as_stages:
  assumes "t0 \<noteq> t1" "t1 \<noteq> t2" "t2 \<noteq> t3" "t0 \<noteq> t2" "t1 \<noteq> t3"
  shows "C p0 p1 p2 p3 t0 t1 t2 t3 t = Inr (C_stages p0 p1 p2 p3 t0 t1 t2 t3 t)"
  using assms by (simp add: C_def C_stages_def lerp_stage del: lerp.simps)

lemma C_value:
  assumes "t0 \<noteq> t1" "t1 \<noteq> t2" "t2 \<noteq> t3" "t0 \<noteq> t2" "t1 \<noteq> t3"
  shows "C p0 p1 p2 p3 t0 t1 t2 t3 t = Inr (C_pycode p0 p1 p2 p3 t0 t1 t2 t3 t)"
  using assms unfolding C_def C_pycode_def
  by (simp add: mult.commute)

lemma C_subs_value:
  "C_subs_pycode p0 p1 p2 p3 t0 t1 t2 t3 (t - t0) (t - t1) (t - t2) (t - t3)
   = C_pycode p0 p1 p2 p3 t0 t1 t2 t3 t"
proof -
  have a: "(t - a) * q - (t - b) * p = p * (- t + b) + q * (t - a)" for a b p q :: real
    by (simp add: algebra_simps)
  have n: "(- t + b) * y / e = - ((t - b) * y / e)" for b y e :: real
  proof -
    have "(- t + b) * y = - ((t - b) * y)" by (simp add: algebra_simps)
    then show ?thesis by (simp only: minus_divide_left)
  qed
  have s: "(t - a) * x / d - (t - b) * y / e = (- t + b) * y / e + (t - a) * x / d"
    for a b x y d e :: real
    by (simp only: n)
  show ?thesis
    unfolding C_subs_pycode_def C_pycode_def a s ..
qed

text \<open>
  C1.  For all values \<open>p0 .. p3\<close>, all \<open>t\<close> and pairwise distinct timestamps
  \<open>t0 .. t3\<close>, the three-stage nested linear interpolation \<open>C\<close> built from \<open>lerp\<close>
  (each stage weighted by the timestamps) returns a value, and that value equals both
  the recorded \<^verbatim>\<open>pycode(C)\<close> expression and the recorded
  \<^verbatim>\<open>pycode(C.subs(deltas))\<close> expression with \<open>delta\<^sub>i = t - t\<^sub>i\<close>.
\<close>

theorem C_closed_forms:
  assumes "distinct [t0, t1, t2, t3]"
  shows "C p0 p1 p2 p3 t0 t1 t2 t3 t = Inr (C_pycode p0 p1 p2 p3 t0 t1 t2 t3 t)
       \<and> C p0 p1 p2 p3 t0 t1 t2 t3 t
           = Inr (C_subs_pycode p0 p1 p2 p3 t0 t1 t2 t3 (t - t0) (t - t1) (t - t2) (t - t3))"
proof -
  have d: "t0 \<noteq> t1" "t1 \<noteq> t2" "t2 \<noteq> t3" "t0 \<noteq> t2" "t1 \<noteq> t3"
    using assms by auto
  show ?thesis
    by (simp only: C_value [OF d] C_subs_value)
qed

theorem C_closed_forms_witness:
  "distinct [0, 10, 20, 30 :: real]
   \<and> C 1 2 4 8 0 10 20 30 15 = Inr (C_pycode 1 2 4 8 0 10 20 30 15)
   \<and> C 1 2 4 8 0 10 20 30 15
        = Inr (C_subs_pycode 1 2 4 8 0 10 20 30 (15 - 0) (15 - 10) (15 - 20) (15 - 30))
   \<and> C_pycode 1 2 4 8 0 10 20 30 15 = 45 / 16"
  using C_closed_forms [of 0 10 20 30 1 2 4 8 15]
  by (simp add: C_pycode_def C_subs_pycode_def)

section \<open>The spline passes through the two inner points\<close>

lemma stage_begin: "d \<noteq> 0 \<Longrightarrow> stage x y d 0 d = x"
  by (simp add: stage_def)

lemma stage_end: "d \<noteq> 0 \<Longrightarrow> stage x y 0 d d = y"
  by (simp add: stage_def)

lemma stage_same: "nb + na = d \<Longrightarrow> d \<noteq> 0 \<Longrightarrow> stage x x nb na d = x"
proof -
  assume "nb + na = d" "d \<noteq> 0"
  then have "x * nb + x * na = x * d" by (simp add: distrib_left [symmetric])
  with \<open>d \<noteq> 0\<close> show ?thesis by (simp add: stage_def)
qed

lemma C_at_t1:
  assumes "t0 \<noteq> t1" "t1 \<noteq> t2" "t2 \<noteq> t3" "t0 \<noteq> t2" "t1 \<noteq> t3"
  shows "C p0 p1 p2 p3 t0 t1 t2 t3 t1 = Inr p1"
proof -
  have "stage (stage p0 p1 (t1 - t1) (t1 - t0) (t1 - t0))
              (stage p1 p2 (t2 - t1) (t1 - t1) (t2 - t1)) (t2 - t1) (t1 - t0) (t2 - t0) = p1"
    using assms by (simp add: stage_begin stage_end stage_same)
  then have "C_stages p0 p1 p2 p3 t0 t1 t2 t3 t1 = p1"
    using assms by (simp add: C_stages_def stage_begin)
  then show ?thesis by (simp add: C_as_stages [OF assms])
qed

lemma C_at_t2:
  assumes "t0 \<noteq> t1" "t1 \<noteq> t2" "t2 \<noteq> t3" "t0 \<noteq> t2" "t1 \<noteq> t3"
  shows "C p0 p1 p2 p3 t0 t1 t2 t3 t2 = Inr p2"
proof -
  have "stage (stage p1 p2 (t2 - t2) (t2 - t1) (t2 - t1))
              (stage p2 p3 (t3 - t2) (t2 - t2) (t3 - t2)) (t3 - t2) (t2 - t1) (t3 - t1) = p2"
    using assms by (simp add: stage_begin stage_end stage_same)
  then have "C_stages p0 p1 p2 p3 t0 t1 t2 t3 t2 = p2"
    using assms by (simp add: C_stages_def stage_end)
  then show ?thesis by (simp add: C_as_stages [OF assms])
qed

text \<open>
  C2.  For every window \<open>(p0, p1, p2, p3)\<close> with strictly increasing timestamps, the
  nested construction \<open>C\<close> evaluated at \<open>t = t1\<close> returns \<open>p1\<close> and evaluated at
  \<open>t = t2\<close> returns \<open>p2\<close>.  Numbers are exact here, so the returned value is the
  point's own, which is within every tolerance.
\<close>

theorem C_interior_identity:
  assumes "t0 < t1" "t1 < t2" "t2 < t3"
  shows "C p0 p1 p2 p3 t0 t1 t2 t3 t1 = Inr p1 \<and> C p0 p1 p2 p3 t0 t1 t2 t3 t2 = Inr p2"
proof -
  have d: "t0 \<noteq> t1" "t1 \<noteq> t2" "t2 \<noteq> t3" "t0 \<noteq> t2" "t1 \<noteq> t3"
    using assms by auto
  show ?thesis
    by (simp only: C_at_t1 [OF d] C_at_t2 [OF d])
qed

theorem C_interior_identity_witness:
  "(0::real) < 10 \<and> (10::real) < 20 \<and> (20::real) < 30
   \<and> C 1 2 4 8 0 10 20 30 10 = Inr 2 \<and> C 1 2 4 8 0 10 20 30 20 = Inr 4"
  using C_interior_identity [of 0 10 20 30 1 2 4 8] by simp

section \<open>The derivative\<close>

lemma stage_deriv:
  assumes "(x has_real_derivative x') (at t)" "(y has_real_derivative y') (at t)" "a \<noteq> b"
  shows "((\<lambda>s. stage (x s) (y s) (b - s) (s - a) (b - a)) has_real_derivative
            stage_diff (x t) x' (y t) y' (b - t) (t - a) (b - a)) (at t)"
  unfolding stage_def stage_diff_def
  using assms by (auto intro!: derivative_eq_intros)

lemma C_stages_deriv:
  assumes "t0 \<noteq> t1" "t1 \<noteq> t2" "t2 \<noteq> t3" "t0 \<noteq> t2" "t1 \<noteq> t3"
  shows "((\<lambda>s. C_stages p0 p1 p2 p3 t0 t1 t2 t3 s) has_real_derivative
           C_stages_diff p0 p1 p2 p3 (t - t0) (t - t1) (t - t2) (t - t3)
                   (t0 - t1) (t0 - t2) (t1 - t2) (t1 - t3) (t2 - t3)) (at t)"
  unfolding C_stages_def C_stages_diff_def minus_diff_eq
  by (intro stage_deriv DERIV_const assms)

lemma C_stages_diff_common_denominator:
  assumes nz: "a01 \<noteq> 0" "a02 \<noteq> 0" "a12 \<noteq> 0" "a13 \<noteq> 0" "a23 \<noteq> 0"
  shows
   "C_stages_diff p0 p1 p2 p3 D0 D1 D2 D3 a01 a02 a12 a13 a23
   = (a01 * a02
        * (- D1 * a12 * (D2 * p3 - D3 * p2)
           + D1 * (a12 * (D1 * (p2 - p3) - D2 * p3 + D3 * p2)
                       + a23 * (D1 * p2 - D2 * p1 - D3 * (p1 - p2)))
           + D3 * a23 * (D1 * p2 - D2 * p1))
      + a13 * a23
        * (D0 * a01 * (D1 * p2 - D2 * p1)
           - D2 * a12 * (D0 * p1 - D1 * p0)
           - D2 * (a01 * (D0 * (p1 - p2) - D1 * p2 + D2 * p1)
                       + a12 * (D0 * p1 - D1 * p0 - D2 * (p0 - p1)))))
     / (a01 * a02 * a12 ^ 2 * a13 * a23)"
  using nz unfolding C_stages_diff_def stage_def stage_diff_def
  by (simp add: field_simps power2_eq_square)

lemma C_stages_diff_pycode:
  assumes "t0 \<noteq> t1" "t1 \<noteq> t2" "t2 \<noteq> t3" "t0 \<noteq> t2" "t1 \<noteq> t3"
  shows "C_stages_diff p0 p1 p2 p3 (t - t0) (t - t1) (t - t2) (t - t3)
                   (t0 - t1) (t0 - t2) (t1 - t2) (t1 - t3) (t2 - t3)
         = C_diff_pycode p0 p1 p2 p3 t0 t1 t2 t3 (t - t0) (t - t1) (t - t2) (t - t3)"
  unfolding C_diff_pycode_def
  by (rule C_stages_diff_common_denominator) (use assms in simp_all)

text \<open>
  C3.  For pairwise distinct timestamps \<open>t0 .. t3\<close> and every \<open>t\<close>, the value returned
  by the nested construction \<open>C\<close>, as a function of \<open>t\<close>, is differentiable at \<open>t\<close>, and
  its derivative there is the recorded
  \<^verbatim>\<open>pycode(C.diff(t).subs(deltas).simplify())\<close> expression with \<open>Delta\<^sub>i = t - t\<^sub>i\<close>.
\<close>

theorem C_derivative_closed_form:
  assumes "distinct [t0, t1, t2, t3]"
  shows "((\<lambda>s. projr (C p0 p1 p2 p3 t0 t1 t2 t3 s)) has_real_derivative
            C_diff_pycode p0 p1 p2 p3 t0 t1 t2 t3 (t - t0) (t - t1) (t - t2) (t - t3)) (at t)"
proof -
  have d: "t0 \<noteq> t1" "t1 \<noteq> t2" "t2 \<noteq> t3" "t0 \<noteq> t2" "t1 \<noteq> t3"
    using assms by auto
  have "(\<lambda>s. projr (C p0 p1 p2 p3 t0 t1 t2 t3 s)) = (\<lambda>s. C_stages p0 p1 p2 p3 t0 t1 t2 t3 s)"
    by (simp add: C_as_stages [OF d])
  then show ?thesis
    using C_stages_deriv [OF d, of p0 p1 p2 p3 t] by (simp only: C_stages_diff_pycode [OF d])
qed

theorem C_derivative_closed_form_witness:
  "distinct [0, 10, 20, 30 :: real]
   \<and> ((\<lambda>s. projr (C 1 2 4 8 0 10 20 30 s)) has_real_derivative
         C_diff_pycode 1 2 4 8 0 10 20 30 (15 - 0) (15 - 10) (15 - 20) (15 - 30)) (at 15)
   \<and> C_diff_pycode 1 2 4 8 0 10 20 30 (15 - 0) (15 - 10) (15 - 20) (15 - 30) = 3 / 16"
  using C_derivative_closed_form [of 0 10 20 30 1 2 4 8 15]
  by (simp add: C_diff_pycode_def)

section \<open>Properties of \<open>lerp\<close>\<close>

lemma lerp_value:
  "t_begin \<noteq> t_end \<Longrightarrow>
   lerp [x_begin, x_end] [t_begin, t_end] t =
     Inr ((x_begin * (t_end - t) + x_end * (t - t_begin)) / (t_end - t_begin))"
  by simp

lemma lerp_affine:
  fixes x_begin x_end t_begin t_end t :: real
  assumes "t_begin \<noteq> t_end"
  shows "(x_begin * (t_end - t) + x_end * (t - t_begin)) / (t_end - t_begin)
         = x_begin + (x_end - x_begin) * (t - t_begin) / (t_end - t_begin)"
proof -
  have nz: "t_end - t_begin \<noteq> 0" using assms by simp
  have "x_begin * (t_end - t) + x_end * (t - t_begin)
        = x_begin * (t_end - t_begin) + (x_end - x_begin) * (t - t_begin)"
    by (simp add: algebra_simps)
  then show ?thesis using nz by (simp add: add_divide_distrib)
qed

text \<open>
  C10.  For all values \<open>x_begin\<close>, \<open>x_end\<close> and all times \<open>t_begin \<noteq> t_end\<close>,
  \<open>lerp [x_begin, x_end] [t_begin, t_end] t\<close> returns
  \<open>x_begin + (x_end - x_begin) * (t - t_begin) / (t_end - t_begin)\<close>, so it returns
  \<open>x_begin\<close> at \<open>t = t_begin\<close> and \<open>x_end\<close> at \<open>t = t_end\<close>; when the two times are equal
  the division by zero raises and no value is returned.
\<close>

theorem lerp_affine_endpoints:
  "(t_begin \<noteq> t_end \<longrightarrow>
      lerp [x_begin, x_end] [t_begin, t_end] t
        = Inr (x_begin + (x_end - x_begin) * (t - t_begin) / (t_end - t_begin))
      \<and> lerp [x_begin, x_end] [t_begin, t_end] t_begin = Inr x_begin
      \<and> lerp [x_begin, x_end] [t_begin, t_end] t_end = Inr x_end)
   \<and> lerp [x_begin, x_end] [t_begin, t_begin] t = Inl ZeroDivisionError"
proof -
  have "lerp [x_begin, x_end] [t_begin, t_end] t
          = Inr (x_begin + (x_end - x_begin) * (t - t_begin) / (t_end - t_begin))"
    if "t_begin \<noteq> t_end"
    using that lerp_affine [OF that] by simp
  moreover have "lerp [x_begin, x_end] [t_begin, t_end] t_begin = Inr x_begin"
    if "t_begin \<noteq> t_end"
    using that by simp
  moreover have "lerp [x_begin, x_end] [t_begin, t_end] t_end = Inr x_end"
    if "t_begin \<noteq> t_end"
    using that by simp
  moreover have "lerp [x_begin, x_end] [t_begin, t_begin] t = Inl ZeroDivisionError"
    by simp
  ultimately show ?thesis by blast
qed

theorem lerp_affine_endpoints_witness:
  "(0::real) \<noteq> 10
   \<and> lerp [2, 6] [0, 10] 5 = Inr 4
   \<and> lerp [2, 6] [0, 10] 0 = Inr 2
   \<and> lerp [2, 6] [0, 10] 10 = Inr 6
   \<and> lerp [2, 6] [0, 0] 5 = Inl ZeroDivisionError"
  using lerp_affine_endpoints [of 0 10 2 6 5] by simp

section \<open>Equal timestamps in the window\<close>






section \<open>Refusal outside the interior\<close>

text \<open>
  C6, as \<open>interpolate\<close> of the specification has it.  For every track of three or more
  points and every \<open>t\<close> outside \<open>[track[1].timestamp, track[len-2].timestamp]\<close>, and
  for every track of exactly two points and every \<open>t\<close> outside
  \<open>[track[0].timestamp, track[1].timestamp]\<close>, \<open>interpolate track t\<close> fails with
  \<open>OutOfRangeError\<close> and returns no value.  Between the two points of a two-point
  track the linear fallback returns a value.
\<close>

theorem interpolate_out_of_range:
  "(3 \<le> length track \<and> (t < timestamp (track ! 1) \<or> timestamp (track ! (length track - 2)) < t)
      \<longrightarrow> interpolate track t = Inl OutOfRangeError)
   \<and> (length track = 2 \<and> (t < timestamp (track ! 0) \<or> timestamp (track ! 1) < t)
      \<longrightarrow> interpolate track t = Inl OutOfRangeError)"
  by (auto simp: interpolate_def)

theorem interpolate_out_of_range_witness:
  "interpolate [\<lparr>timestamp = 0, lat = 1, lon = 2, elevation = 0\<rparr>,
                \<lparr>timestamp = 10, lat = 2, lon = 3, elevation = 0\<rparr>,
                \<lparr>timestamp = 20, lat = 4, lon = 5, elevation = 0\<rparr>,
                \<lparr>timestamp = 30, lat = 8, lon = 7, elevation = 0\<rparr>] 5 = Inl OutOfRangeError
   \<and> interpolate [\<lparr>timestamp = 0, lat = 1, lon = 2, elevation = 0\<rparr>,
                \<lparr>timestamp = 10, lat = 2, lon = 3, elevation = 0\<rparr>,
                \<lparr>timestamp = 20, lat = 4, lon = 5, elevation = 0\<rparr>,
                \<lparr>timestamp = 30, lat = 8, lon = 7, elevation = 0\<rparr>] 25 = Inl OutOfRangeError
   \<and> interpolate [\<lparr>timestamp = 0, lat = 1, lon = 2, elevation = 0\<rparr>,
                \<lparr>timestamp = 10, lat = 2, lon = 3, elevation = 0\<rparr>] 11 = Inl OutOfRangeError"
  using interpolate_out_of_range [of "[\<lparr>timestamp = 0, lat = 1, lon = 2, elevation = 0\<rparr>,
                \<lparr>timestamp = 10, lat = 2, lon = 3, elevation = 0\<rparr>,
                \<lparr>timestamp = 20, lat = 4, lon = 5, elevation = 0\<rparr>,
                \<lparr>timestamp = 30, lat = 8, lon = 7, elevation = 0\<rparr>]" 5]
    interpolate_out_of_range [of "[\<lparr>timestamp = 0, lat = 1, lon = 2, elevation = 0\<rparr>,
                \<lparr>timestamp = 10, lat = 2, lon = 3, elevation = 0\<rparr>,
                \<lparr>timestamp = 20, lat = 4, lon = 5, elevation = 0\<rparr>,
                \<lparr>timestamp = 30, lat = 8, lon = 7, elevation = 0\<rparr>]" 25]
    interpolate_out_of_range [of "[\<lparr>timestamp = 0, lat = 1, lon = 2, elevation = 0\<rparr>,
                \<lparr>timestamp = 10, lat = 2, lon = 3, elevation = 0\<rparr>]" 11]
  by simp

theorem interpolate_out_of_range_counterexample:
  "((5::real) < timestamp ([\<lparr>timestamp = 0, lat = 1, lon = 2, elevation = 0\<rparr>,
                   \<lparr>timestamp = 10, lat = 2, lon = 3, elevation = 0\<rparr>] ! 1)
    \<or> timestamp ([\<lparr>timestamp = 0, lat = 1, lon = 2, elevation = 0\<rparr>,
                   \<lparr>timestamp = 10, lat = 2, lon = 3, elevation = 0\<rparr>]
                  ! (length [\<lparr>timestamp = 0, lat = 1, lon = 2, elevation = 0\<rparr>,
                             \<lparr>timestamp = 10, lat = 2, lon = 3, elevation = 0\<rparr>] - 2)) < 5)
   \<and> interpolate [\<lparr>timestamp = 0, lat = 1, lon = 2, elevation = 0\<rparr>,
                  \<lparr>timestamp = 10, lat = 2, lon = 3, elevation = 0\<rparr>] 5
       = Inr \<lparr>timestamp = 5, lat = 3 / 2, lon = 5 / 2, elevation = 0\<rparr>"
  by (simp add: interpolate_def)

section \<open>\<open>interpolate\<close> at the timestamp of an interior fix\<close>

text \<open>
  What the two inner points of the window mean for \<open>interpolate\<close> of the specification:
  on a strictly increasing track of four or more points, at the timestamp of a fix that
  is neither the first nor the last, it returns that fix.
\<close>

lemma spline_at_t1:
  assumes "timestamp p0 < timestamp p1" "timestamp p1 < timestamp p2" "timestamp p2 < timestamp p3"
  shows "spline [p0, p1, p2, p3] (timestamp p1) = Inr p1"
proof -
  have d: "timestamp p0 \<noteq> timestamp p1" "timestamp p1 \<noteq> timestamp p2"
    "timestamp p2 \<noteq> timestamp p3" "timestamp p0 \<noteq> timestamp p2" "timestamp p1 \<noteq> timestamp p3"
    using assms by auto
  show ?thesis
    using d by (simp add: C_at_t1 [OF d])
qed

lemma spline_at_t2:
  assumes "timestamp p0 < timestamp p1" "timestamp p1 < timestamp p2" "timestamp p2 < timestamp p3"
  shows "spline [p0, p1, p2, p3] (timestamp p2) = Inr p2"
proof -
  have d: "timestamp p0 \<noteq> timestamp p1" "timestamp p1 \<noteq> timestamp p2"
    "timestamp p2 \<noteq> timestamp p3" "timestamp p0 \<noteq> timestamp p2" "timestamp p1 \<noteq> timestamp p3"
    using assms by auto
  show ?thesis
    using d by (simp add: C_at_t2 [OF d])
qed

lemma spline_four_at_fix:
  assumes "sorted_wrt (<) (map timestamp [a, b, c, d])" and "1 \<le> k" and "k + 2 \<le> 4"
  shows "spline [a, b, c, d] (timestamp ([a, b, c, d] ! k)) = Inr ([a, b, c, d] ! k)"
proof -
  have "k = 1 \<or> k = 2" using assms(2,3) by auto
  moreover have "timestamp a < timestamp b" "timestamp b < timestamp c" "timestamp c < timestamp d"
    using assms(1) by simp_all
  ultimately show ?thesis
    by (auto simp: spline_at_t1 spline_at_t2 simp del: spline.simps)
qed

lemma timestamp_nth_less:
  assumes "sorted_wrt (<) (map timestamp track)" "i < j" "j < length track"
  shows "timestamp (track ! i) < timestamp (track ! j)"
  using sorted_wrt_nth_less [OF assms(1), of i j] assms(2,3) by simp

lemmas window_induct = window.induct [case_names shift none one two three four]

lemma window_at_fix:
  "sorted_wrt (<) (map timestamp track) \<Longrightarrow> 4 \<le> length track \<Longrightarrow> 1 \<le> k
   \<Longrightarrow> k + 2 \<le> length track \<Longrightarrow> t = timestamp (track ! k)
   \<Longrightarrow> spline (window track t) t = Inr (track ! k)"
proof (induction track t arbitrary: k rule: window_induct)
  case (shift p0 p1 p2 p3 p4 rest t)
  let ?track = "p0 # p1 # p2 # p3 # p4 # rest"
  have lt: "timestamp p0 < timestamp p1" "timestamp p1 < timestamp p2" "timestamp p2 < timestamp p3"
    using shift.prems(1) by simp_all
  have k: "k < length ?track" using shift.prems(4) by simp
  show ?case
  proof (cases "t \<le> timestamp p2")
    case True
    have "k \<le> 2"
    proof (rule ccontr)
      assume "\<not> k \<le> 2"
      then have "2 < k" by simp
      from timestamp_nth_less [OF shift.prems(1) this k]
      have "timestamp p2 < timestamp (?track ! k)" by simp
      with True shift.prems(5) show False by simp
    qed
    with shift.prems(3) have "k = 1 \<or> k = 2" by auto
    then show ?thesis
      using True shift.prems(5) lt
      by (auto simp: spline_at_t1 spline_at_t2 simp del: spline.simps)
  next
    case False
    have "2 < k"
    proof (rule ccontr)
      assume "\<not> 2 < k"
      with shift.prems(3) have "k = 1 \<or> k = 2" by auto
      with False shift.prems(5) lt show False by auto
    qed
    then obtain j where j: "k = Suc j" "1 \<le> j" by (cases k) auto
    have "spline (window (p1 # p2 # p3 # p4 # rest) t) t = Inr ((p1 # p2 # p3 # p4 # rest) ! j)"
      using shift.prems j by (intro shift.IH [OF False]) simp_all
    then show ?thesis using False j by simp
  qed
next
  case (four a b c d t)
  then show ?case using spline_four_at_fix [of a b c d k] by simp
qed simp_all

lemma interpolate_at_fix:
  assumes "sorted_wrt (<) (map timestamp track)" and "4 \<le> length track"
    and "1 \<le> k" and "k + 2 \<le> length track"
  shows "interpolate track (timestamp (track ! k)) = Inr (track ! k)"
proof -
  have "timestamp (track ! 1) \<le> timestamp (track ! k)"
  proof (cases "k = 1")
    case False
    with assms(3,4) have "1 < k" "k < length track" by auto
    from timestamp_nth_less [OF assms(1) this] show ?thesis by simp
  qed simp
  moreover have "timestamp (track ! k) \<le> timestamp (track ! (length track - 2))"
  proof (cases "k = length track - 2")
    case False
    with assms(2,4) have "k < length track - 2" "length track - 2 < length track" by auto
    from timestamp_nth_less [OF assms(1) this] show ?thesis by simp
  qed simp
  ultimately have "\<not> (timestamp (track ! k) < timestamp (track ! 1)
       \<or> timestamp (track ! (length track - 2)) < timestamp (track ! k))"
    using assms by auto
  then show ?thesis
    using assms window_at_fix [OF assms refl] by (simp add: interpolate_def)
qed

section \<open>Gap thresholds\<close>

lemma gap_mono:
  "maxTimeGap \<le> maxTimeGap' \<Longrightarrow> maxDistanceGap \<le> maxDistanceGap'
   \<Longrightarrow> gap distance maxTimeGap' maxDistanceGap' a b \<Longrightarrow> gap distance maxTimeGap maxDistanceGap a b"
  by (auto split: option.splits)

lemma walk_length_mono:
  assumes "\<And>a b. boundary' a b \<Longrightarrow> boundary a b"
  shows "length (walk boundary' cur' prev rs) \<le> length (walk boundary cur prev rs)"
proof (induction rs arbitrary: cur cur' prev)
  case Nil
  then show ?case by simp
next
  case (Cons r rs)
  show ?case
  proof (cases "boundary' prev r")
    case True
    then have "boundary prev r" by (rule assms)
    with True show ?thesis using Cons.IH [of "[r]" r "[r]"] by simp
  next
    case False
    show ?thesis
    proof (cases "boundary prev r")
      case True
      with False show ?thesis using Cons.IH [of "cur' @ [r]" r "[r]"] by simp
    next
      case no: False
      with False show ?thesis using Cons.IH [of "cur' @ [r]" r "cur @ [r]"] by simp
    qed
  qed
qed

text \<open>
  C7, on \<open>segment\<close> of the specification.  For every strictly ordered batch, when
  \<open>maxTimeGap\<close> or \<open>maxDistanceGap\<close> is increased and the other is not decreased,
  \<open>segment\<close> returns with both settings, and with the larger thresholds it returns at
  most as many sequences as with the smaller ones.
\<close>

theorem segment_gap_monotone:
  assumes "strictly_ordered records"
    and "maxTimeGap \<le> maxTimeGap'" and "maxDistanceGap \<le> maxDistanceGap'"
  shows "\<exists>ss ss'. segment distance records maxTimeGap maxDistanceGap = Inr ss
          \<and> segment distance records maxTimeGap' maxDistanceGap' = Inr ss'
          \<and> length ss' \<le> length ss"
proof -
  have "length (walk (gap distance maxTimeGap' maxDistanceGap') [r] r rs)
        \<le> length (walk (gap distance maxTimeGap maxDistanceGap) [r] r rs)" for r rs
    by (rule walk_length_mono) (rule gap_mono [OF assms(2) assms(3)])
  then show ?thesis
    unfolding segment_def Let_def
    by (cases "rev (dropWhile no_position (rev (dropWhile no_position records)))")
       (simp_all only: assms(1) if_True list.case length_append length_map add_le_cancel_left
          add_le_cancel_right sum.inject simp_thms ex_simps)
qed

theorem segment_gap_monotone_witness:
  "strictly_ordered
     [\<lparr>path = ''a'', capturedAt = 0,
       knownPosition = Some \<lparr>timestamp = 0, lat = 1, lon = 2, elevation = 0\<rparr>, contentFingerprint = ''fa''\<rparr>,
      \<lparr>path = ''b'', capturedAt = 10, knownPosition = None, contentFingerprint = ''fb''\<rparr>,
      \<lparr>path = ''c'', capturedAt = 20,
       knownPosition = Some \<lparr>timestamp = 20, lat = 1, lon = 3, elevation = 0\<rparr>, contentFingerprint = ''fc''\<rparr>,
      \<lparr>path = ''d'', capturedAt = 500,
       knownPosition = Some \<lparr>timestamp = 500, lat = 1, lon = 4, elevation = 0\<rparr>, contentFingerprint = ''fd''\<rparr>]
   \<and> (60::real) \<le> 600 \<and> (5::real) \<le> 5
   \<and> (\<exists>ss ss'.
        segment (\<lambda>p q. \<bar>lon q - lon p\<bar>)
          [\<lparr>path = ''a'', capturedAt = 0,
            knownPosition = Some \<lparr>timestamp = 0, lat = 1, lon = 2, elevation = 0\<rparr>, contentFingerprint = ''fa''\<rparr>,
           \<lparr>path = ''b'', capturedAt = 10, knownPosition = None, contentFingerprint = ''fb''\<rparr>,
           \<lparr>path = ''c'', capturedAt = 20,
            knownPosition = Some \<lparr>timestamp = 20, lat = 1, lon = 3, elevation = 0\<rparr>, contentFingerprint = ''fc''\<rparr>,
           \<lparr>path = ''d'', capturedAt = 500,
            knownPosition = Some \<lparr>timestamp = 500, lat = 1, lon = 4, elevation = 0\<rparr>, contentFingerprint = ''fd''\<rparr>]
          60 5 = Inr ss
      \<and> segment (\<lambda>p q. \<bar>lon q - lon p\<bar>)
          [\<lparr>path = ''a'', capturedAt = 0,
            knownPosition = Some \<lparr>timestamp = 0, lat = 1, lon = 2, elevation = 0\<rparr>, contentFingerprint = ''fa''\<rparr>,
           \<lparr>path = ''b'', capturedAt = 10, knownPosition = None, contentFingerprint = ''fb''\<rparr>,
           \<lparr>path = ''c'', capturedAt = 20,
            knownPosition = Some \<lparr>timestamp = 20, lat = 1, lon = 3, elevation = 0\<rparr>, contentFingerprint = ''fc''\<rparr>,
           \<lparr>path = ''d'', capturedAt = 500,
            knownPosition = Some \<lparr>timestamp = 500, lat = 1, lon = 4, elevation = 0\<rparr>, contentFingerprint = ''fd''\<rparr>]
          600 5 = Inr ss'
      \<and> length ss' \<le> length ss)"
  using segment_gap_monotone [of
          "[\<lparr>path = ''a'', capturedAt = 0,
            knownPosition = Some \<lparr>timestamp = 0, lat = 1, lon = 2, elevation = 0\<rparr>, contentFingerprint = ''fa''\<rparr>,
           \<lparr>path = ''b'', capturedAt = 10, knownPosition = None, contentFingerprint = ''fb''\<rparr>,
           \<lparr>path = ''c'', capturedAt = 20,
            knownPosition = Some \<lparr>timestamp = 20, lat = 1, lon = 3, elevation = 0\<rparr>, contentFingerprint = ''fc''\<rparr>,
           \<lparr>path = ''d'', capturedAt = 500,
            knownPosition = Some \<lparr>timestamp = 500, lat = 1, lon = 4, elevation = 0\<rparr>, contentFingerprint = ''fd''\<rparr>]"
          60 600 5 5 "\<lambda>p q. \<bar>lon q - lon p\<bar>"]
  by simp

text \<open>
  C9, on \<open>segment\<close> of the specification.  For five records with known positions
  captured at the times 0, 10, 20, 500 and 510, with \<open>maxTimeGap = 60\<close> and no
  consecutive pair farther apart than \<open>maxDistanceGap\<close>, \<open>segment\<close> returns exactly
  two sequences: the first three records and the last two, each in input order.
\<close>

theorem segment_scenario_A:
  assumes "capturedAt ra = 0" "capturedAt rb = 10" "capturedAt rc = 20"
          "capturedAt rd = 500" "capturedAt re = 510"
    and "knownPosition ra = Some ga" "knownPosition rb = Some gb" "knownPosition rc = Some gc"
        "knownPosition rd = Some gd" "knownPosition re = Some ge"
    and "distance ga gb \<le> maxDistanceGap" "distance gb gc \<le> maxDistanceGap"
        "distance gc gd \<le> maxDistanceGap" "distance gd ge \<le> maxDistanceGap"
  shows "segment distance [ra, rb, rc, rd, re] 60 maxDistanceGap
         = Inr [\<lparr>members = [ra, rb, rc], positionless = False\<rparr>,
                \<lparr>members = [rd, re], positionless = False\<rparr>]"
  using assms by (simp add: segment_def)

theorem segment_scenario_A_witness:
  "segment (\<lambda>p q. \<bar>lon q - lon p\<bar>)
      [\<lparr>path = ''a'', capturedAt = 0,
        knownPosition = Some \<lparr>timestamp = 0, lat = 1, lon = 2, elevation = 0\<rparr>,
        contentFingerprint = ''fa''\<rparr>,
       \<lparr>path = ''b'', capturedAt = 10,
        knownPosition = Some \<lparr>timestamp = 10, lat = 1, lon = 3, elevation = 0\<rparr>,
        contentFingerprint = ''fb''\<rparr>,
       \<lparr>path = ''c'', capturedAt = 20,
        knownPosition = Some \<lparr>timestamp = 20, lat = 1, lon = 4, elevation = 0\<rparr>,
        contentFingerprint = ''fc''\<rparr>,
       \<lparr>path = ''d'', capturedAt = 500,
        knownPosition = Some \<lparr>timestamp = 500, lat = 1, lon = 5, elevation = 0\<rparr>,
        contentFingerprint = ''fd''\<rparr>,
       \<lparr>path = ''e'', capturedAt = 510,
        knownPosition = Some \<lparr>timestamp = 510, lat = 1, lon = 6, elevation = 0\<rparr>,
        contentFingerprint = ''fe''\<rparr>]
      60 1
   = Inr [\<lparr>members =
      [\<lparr>path = ''a'', capturedAt = 0,
        knownPosition = Some \<lparr>timestamp = 0, lat = 1, lon = 2, elevation = 0\<rparr>,
        contentFingerprint = ''fa''\<rparr>,
       \<lparr>path = ''b'', capturedAt = 10,
        knownPosition = Some \<lparr>timestamp = 10, lat = 1, lon = 3, elevation = 0\<rparr>,
        contentFingerprint = ''fb''\<rparr>,
       \<lparr>path = ''c'', capturedAt = 20,
        knownPosition = Some \<lparr>timestamp = 20, lat = 1, lon = 4, elevation = 0\<rparr>,
        contentFingerprint = ''fc''\<rparr>],
      positionless = False\<rparr>,
     \<lparr>members =
      [\<lparr>path = ''d'', capturedAt = 500,
        knownPosition = Some \<lparr>timestamp = 500, lat = 1, lon = 5, elevation = 0\<rparr>,
        contentFingerprint = ''fd''\<rparr>,
       \<lparr>path = ''e'', capturedAt = 510,
        knownPosition = Some \<lparr>timestamp = 510, lat = 1, lon = 6, elevation = 0\<rparr>,
        contentFingerprint = ''fe''\<rparr>],
      positionless = False\<rparr>]"
  using segment_scenario_A
    [where distance = "\<lambda>p q. \<bar>lon q - lon p\<bar>" and maxDistanceGap = 1
      and ra = "\<lparr>path = ''a'', capturedAt = 0,
        knownPosition = Some \<lparr>timestamp = 0, lat = 1, lon = 2, elevation = 0\<rparr>,
        contentFingerprint = ''fa''\<rparr>"
      and ga = "\<lparr>timestamp = 0, lat = 1, lon = 2, elevation = 0\<rparr>"
      and rb = "\<lparr>path = ''b'', capturedAt = 10,
        knownPosition = Some \<lparr>timestamp = 10, lat = 1, lon = 3, elevation = 0\<rparr>,
        contentFingerprint = ''fb''\<rparr>"
      and gb = "\<lparr>timestamp = 10, lat = 1, lon = 3, elevation = 0\<rparr>"
      and rc = "\<lparr>path = ''c'', capturedAt = 20,
        knownPosition = Some \<lparr>timestamp = 20, lat = 1, lon = 4, elevation = 0\<rparr>,
        contentFingerprint = ''fc''\<rparr>"
      and gc = "\<lparr>timestamp = 20, lat = 1, lon = 4, elevation = 0\<rparr>"
      and rd = "\<lparr>path = ''d'', capturedAt = 500,
        knownPosition = Some \<lparr>timestamp = 500, lat = 1, lon = 5, elevation = 0\<rparr>,
        contentFingerprint = ''fd''\<rparr>"
      and gd = "\<lparr>timestamp = 500, lat = 1, lon = 5, elevation = 0\<rparr>"
      and re = "\<lparr>path = ''e'', capturedAt = 510,
        knownPosition = Some \<lparr>timestamp = 510, lat = 1, lon = 6, elevation = 0\<rparr>,
        contentFingerprint = ''fe''\<rparr>"
      and ge = "\<lparr>timestamp = 510, lat = 1, lon = 6, elevation = 0\<rparr>"]
  by simp

section \<open>The scenarios of the specification on its models\<close>

text \<open>
  Scenarios B (the position) and D of section 8 of the specification, evaluated on
  \<open>interpolate\<close> and on \<open>segment\<close> as modelled above.
\<close>

lemma scenario_B_midpoint:
  "interpolate [\<lparr>timestamp = 0, lat = 47, lon = 11, elevation = 500\<rparr>,
                \<lparr>timestamp = 10, lat = 47, lon = 12, elevation = 500\<rparr>,
                \<lparr>timestamp = 20, lat = 47, lon = 13, elevation = 500\<rparr>,
                \<lparr>timestamp = 30, lat = 47, lon = 14, elevation = 500\<rparr>] 15
   = Inr \<lparr>timestamp = 15, lat = 47, lon = 25 / 2, elevation = 500\<rparr>"
  by (simp add: interpolate_def C_def)

lemma scenario_D_leading_run:
  "segment distance
     [\<lparr>path = ''a'', capturedAt = 0, knownPosition = None, contentFingerprint = ''fa''\<rparr>,
      \<lparr>path = ''b'', capturedAt = 1, knownPosition = None, contentFingerprint = ''fb''\<rparr>,
      \<lparr>path = ''c'', capturedAt = 2, knownPosition = None, contentFingerprint = ''fc''\<rparr>,
      \<lparr>path = ''d'', capturedAt = 3,
       knownPosition = Some \<lparr>timestamp = 3, lat = 47, lon = 11, elevation = 0\<rparr>,
       contentFingerprint = ''fd''\<rparr>] 60 100
   = Inr [\<lparr>members =
            [\<lparr>path = ''a'', capturedAt = 0, knownPosition = None, contentFingerprint = ''fa''\<rparr>,
             \<lparr>path = ''b'', capturedAt = 1, knownPosition = None, contentFingerprint = ''fb''\<rparr>,
             \<lparr>path = ''c'', capturedAt = 2, knownPosition = None, contentFingerprint = ''fc''\<rparr>],
           positionless = True\<rparr>,
          \<lparr>members =
            [\<lparr>path = ''d'', capturedAt = 3,
              knownPosition = Some \<lparr>timestamp = 3, lat = 47, lon = 11, elevation = 0\<rparr>,
              contentFingerprint = ''fd''\<rparr>],
           positionless = False\<rparr>]"
  by (simp add: segment_def)

end
